theory Spec2Isabelle
  imports Complex_Main
begin

section \<open>Numeric model\<close>

text \<open>
  The Go type \<^verbatim>\<open>float64\<close> is modelled by the exact reals: every arithmetic operation of
  the source is the corresponding operation on \<^typ>\<open>real\<close>, without rounding, overflow or
  signed zeros. The model agrees with the idealised reading of the code wherever a
  divisor is non-zero, a radicand is non-negative and the argument of a logarithm is
  positive. The non-finite values that the source produces on purpose
  (\<^verbatim>\<open>math.Inf(1)\<close>, \<^verbatim>\<open>math.Inf(-1)\<close>) are kept as constructors of their own.
\<close>

datatype float64 = Finite real | PosInf | NegInf | NaN

text \<open>
  \<^verbatim>\<open>s * z\<close> and \<^verbatim>\<open>m + z\<close> for a finite left operand and a possibly infinite right
  operand, with the IEEE 754 rules for infinities.
\<close>

fun fmul :: "real \<Rightarrow> float64 \<Rightarrow> float64" where
  "fmul s (Finite z) = Finite (s * z)"
| "fmul s PosInf = (if 0 < s then PosInf else if s < 0 then NegInf else NaN)"
| "fmul s NegInf = (if 0 < s then NegInf else if s < 0 then PosInf else NaN)"
| "fmul s NaN = NaN"

fun fadd :: "real \<Rightarrow> float64 \<Rightarrow> float64" where
  "fadd m (Finite z) = Finite (m + z)"
| "fadd m PosInf = PosInf"
| "fadd m NegInf = NegInf"
| "fadd m NaN = NaN"

text \<open>
  A \<^verbatim>\<open>panic\<close> with a message of the source is \<open>Panic\<close> with that message; an index
  outside a slice is the run-time panic \<open>IndexOutOfRange\<close>.
\<close>

datatype error = Panic string | IndexOutOfRange

section \<open>Rational-polynomial evaluator\<close>

definition zQuantSmallA :: "real list" where
  "zQuantSmallA =
     [3.387132872796366608,
      133.14166789178437745,
      1971.5909503065514427,
      13731.693765509461125,
      45921.953931549871457,
      67265.770927008700853,
      33430.575583588128105,
      2509.0809287301226727]"

definition zQuantSmallB :: "real list" where
  "zQuantSmallB =
     [1.0,
      42.313330701600911252,
      687.1870074920579083,
      5394.1960214247511077,
      21213.794301586595867,
      39307.89580009271061,
      28729.085735721942674,
      5226.495278852854561]"

definition zQuantInterA :: "real list" where
  "zQuantInterA =
     [1.42343711074968357734,
      4.6303378461565452959,
      5.7694972214606914055,
      3.64784832476320460504,
      1.27045825245236838258,
      0.24178072517745061177,
      0.0227238449892691845833,
      0.00077454501427834140764]"

definition zQuantInterB :: "real list" where
  "zQuantInterB =
     [1.0,
      2.05319162663775882187,
      1.6763848301838038494,
      0.68976733498510000455,
      0.14810397642748007459,
      0.0151986665636164571966,
      0.0005475938084995344946,
      0.00000000105075007164441684324]"

definition zQuantTailA :: "real list" where
  "zQuantTailA =
     [6.6579046435011037772,
      5.4637849111641143699,
      1.7848265399172913358,
      0.29656057182850489123,
      0.026532189526576123093,
      0.0012426609473880784386,
      0.0000271155556874348757815,
      0.000000201033439929228813265]"

definition zQuantTailB :: "real list" where
  "zQuantTailB =
     [1.0,
      0.59983220655588793769,
      0.13692988092273580531,
      0.0148753612908506148525,
      0.0007868691311456132591,
      0.000018463183175100546818,
      0.00000014215117583164458887,
      0.00000000000000204426310338993978564]"

text \<open>
  The loop \<^verbatim>\<open>for i := na - 1; i > 0; i-- { u = x*u + a[i-1] }\<close> of \<^verbatim>\<open>rateval\<close>, entered
  with the counter \<open>i\<close> and the accumulator \<open>u\<close>. The counter is an \<^verbatim>\<open>int64\<close>; it only
  decreases towards \<open>0\<close> here, so it never wraps, and it is modelled by \<^typ>\<open>int\<close>.
  Every read \<^verbatim>\<open>a[i-1]\<close> is checked against the length of the slice.
\<close>

function rateval_loop :: "real list \<Rightarrow> int \<Rightarrow> real \<Rightarrow> real \<Rightarrow> error + real" where
  "rateval_loop a i x u =
     (if i > 0 then
        (if i - 1 < int (length a) then rateval_loop a (i - 1) x (x * u + a ! nat (i - 1))
         else Inl IndexOutOfRange)
      else Inr u)"
  by pat_completeness auto
termination
  by (relation "measure (\<lambda>(a, i, x, u). nat i)") auto

declare rateval_loop.simps [simp del]

text \<open>
  \<^verbatim>\<open>rateval(a, na, b, nb, x)\<close>. The first read of each slice, \<^verbatim>\<open>a[na-1]\<close> and
  \<^verbatim>\<open>b[nb-1]\<close>, panics outside the slice. For \<open>na\<close> the least \<^verbatim>\<open>int64\<close> the
  subtraction wraps to the greatest one, which no slice reaches: the outcome is the same
  panic as for the negative index of the model.
\<close>

definition rateval :: "real list \<Rightarrow> int \<Rightarrow> real list \<Rightarrow> int \<Rightarrow> real \<Rightarrow> error + real" where
  "rateval a na b nb x =
     (if na - 1 < 0 \<or> int (length a) \<le> na - 1 then Inl IndexOutOfRange
      else case rateval_loop a (na - 1) x (a ! nat (na - 1)) of
        Inl e \<Rightarrow> Inl e
      | Inr u \<Rightarrow>
          (if nb - 1 < 0 \<or> int (length b) \<le> nb - 1 then Inl IndexOutOfRange
           else case rateval_loop b (nb - 1) x (b ! nat (nb - 1)) of
             Inl e \<Rightarrow> Inl e
           | Inr v \<Rightarrow> Inr (u / v)))"

text \<open>
  The specification's reading of the evaluator: the polynomial with coefficient \<open>i\<close> of
  the sequence at \<open>x ^ i\<close>, and Horner's scheme on the coefficients listed from the
  leading one down to the constant one.
\<close>

definition polyval :: "real list \<Rightarrow> real \<Rightarrow> real" where
  "polyval a x = (\<Sum>i<length a. a ! i * x ^ i)"

fun horner :: "real list \<Rightarrow> real \<Rightarrow> real" where
  "horner [] x = 0"
| "horner (c # cs) x = foldl (\<lambda>u c. x * u + c) c cs"

section \<open>Quantile dispatcher\<close>

definition zQuantSmall :: "real \<Rightarrow> error + real" where
  "zQuantSmall q =
     (let r = 0.180625 - q * q
      in case rateval zQuantSmallA 8 zQuantSmallB 8 r of
           Inl e \<Rightarrow> Inl e
         | Inr v \<Rightarrow> Inr (q * v))"

definition zQuantIntermediate :: "real \<Rightarrow> error + real" where
  "zQuantIntermediate r = rateval zQuantInterA 8 zQuantInterB 8 (r - 1.6)"

definition zQuantTail :: "real \<Rightarrow> error + real" where
  "zQuantTail r = rateval zQuantTailA 8 zQuantTailB 8 (r - 5.0)"

text \<open>
  \<^verbatim>\<open>zQuantile(p)\<close>, for a finite \<open>p\<close>. Outside \<open>[0, 1]\<close> the argument \<open>pp\<close> of
  \<^verbatim>\<open>math.Log\<close> is negative and its result is NaN, which \<^verbatim>\<open>math.Sqrt\<close>, the comparison
  \<^verbatim>\<open>r <= 5.0\<close> (false), \<^verbatim>\<open>zQuantTail\<close> and the negation all hand on: that path is the
  branch \<open>pp < 0\<close> of the model. Inside, \<open>pp\<close> is positive and \<open>- ln pp\<close> is too.
\<close>

definition zQuantile :: "real \<Rightarrow> error + float64" where
  "zQuantile p =
     (if p = 1.0 then Inr PosInf
      else if p = 0.0 then Inr NegInf
      else
        let dp = p - 0.5 in
        if \<bar>dp\<bar> \<le> 0.425 then
          (case zQuantSmall dp of Inl e \<Rightarrow> Inl e | Inr z \<Rightarrow> Inr (Finite z))
        else
          let pp = (if p < 0.5 then p else 1.0 - p) in
          if pp < 0 then Inr NaN
          else
            let r = sqrt (- ln pp) in
            case (if r \<le> 5.0 then zQuantIntermediate r else zQuantTail r) of
              Inl e \<Rightarrow> Inl e
            | Inr x \<Rightarrow> Inr (Finite (if p < 0.5 then - x else x)))"

section \<open>The Normal distribution\<close>

text \<open>
  The fields \<^verbatim>\<open>Mu\<close> and \<^verbatim>\<open>Sigma\<close> of the struct. The field \<^verbatim>\<open>Source\<close> is read by
  \<^verbatim>\<open>Rand\<close> only and is left out.
\<close>

record Normal =
  Mu :: real
  Sigma :: real

definition logRoot2Pi :: real where
  "logRoot2Pi = 0.91893853320467274178032973640561763986139747363778341281715154048276569592726039769474329863595419762200564662463433744"

definition negLogRoot2Pi :: real where
  "negLogRoot2Pi = - logRoot2Pi"

definition NumParameters :: "Normal \<Rightarrow> int" where
  "NumParameters n = 2"

text \<open>
  \<^verbatim>\<open>math.Erf\<close> belongs to Go's standard library; the two functions that call it take it
  as the parameter \<open>Erf\<close>. \<^verbatim>\<open>math.Sqrt2\<close> is \<open>sqrt 2\<close>.
\<close>

definition CDF :: "(real \<Rightarrow> real) \<Rightarrow> Normal \<Rightarrow> real \<Rightarrow> real" where
  "CDF Erf n x = 0.5 * (1 + Erf ((x - Mu n) / (Sigma n * sqrt 2)))"

definition Survival :: "(real \<Rightarrow> real) \<Rightarrow> Normal \<Rightarrow> real \<Rightarrow> real" where
  "Survival Erf n x = 0.5 * (1 - Erf ((x - Mu n) / (Sigma n * sqrt 2)))"

definition DLogProbDX :: "Normal \<Rightarrow> real \<Rightarrow> real" where
  "DLogProbDX n x = - (1 / (2 * Sigma n * Sigma n)) * 2 * (x - Mu n)"

text \<open>
  \<^verbatim>\<open>DLogProbDParam\<close> writes into the slice \<open>deriv\<close> of the caller; the model returns the
  slice after the two writes.
\<close>

definition DLogProbDParam :: "Normal \<Rightarrow> real \<Rightarrow> real list \<Rightarrow> error + real list" where
  "DLogProbDParam n x deriv =
     (if int (length deriv) \<noteq> NumParameters n then Inl (Panic ''dist: slice length mismatch'')
      else
        let deriv = deriv[0 := Mu n * (x - Mu n) / (Sigma n * Sigma n)];
            deriv = deriv[1 := 1 / Sigma n * (- 1 + (x - Mu n) * (x - Mu n) / 2.0)]
        in Inr deriv)"

definition LogProb :: "Normal \<Rightarrow> real \<Rightarrow> real" where
  "LogProb n x = negLogRoot2Pi - ln (Sigma n) - (x - Mu n) * (x - Mu n) / (2 * Sigma n * Sigma n)"

definition Quantile :: "Normal \<Rightarrow> real \<Rightarrow> error + float64" where
  "Quantile n p =
     (if p < 0 \<or> p > 1 then Inl (Panic ''dist: percentile out of bounds'')
      else case zQuantile p of
             Inl e \<Rightarrow> Inl e
           | Inr z \<Rightarrow> Inr (fadd (Mu n) (fmul (Sigma n) z)))"

section \<open>Fitting\<close>

text \<open>
  Modelled from the spec: \<^verbatim>\<open>floats.Sum\<close> of package \<^verbatim>\<open>floats\<close> is not among the sources;
  the specification uses it as the sum of the weights.
\<close>

definition floats_Sum :: "real list \<Rightarrow> real" where
  "floats_Sum s = sum_list s"

text \<open>
  Modelled from the spec: \<^verbatim>\<open>stat.Mean\<close> of package \<^verbatim>\<open>stat\<close> is not among the sources;
  the specification asks for the weighted arithmetic mean of a sequence with an optional
  parallel weight sequence, every weight being 1 when there is none.
\<close>

definition stat_Mean :: "real list \<Rightarrow> real list \<Rightarrow> real" where
  "stat_Mean x weights =
     (if weights = [] then sum_list x / real (length x)
      else (\<Sum>(w, v)\<leftarrow>zip weights x. w * v) / sum_list weights)"

text \<open>
  Modelled from the spec: \<^verbatim>\<open>stat.Moment\<close> of package \<^verbatim>\<open>stat\<close> is not among the sources;
  the specification asks for the uncorrected (population) weighted central moment about
  the given mean, every weight being 1 when there is none.
\<close>

definition stat_Moment :: "nat \<Rightarrow> real list \<Rightarrow> real \<Rightarrow> real list \<Rightarrow> real" where
  "stat_Moment moment x mean weights =
     (if weights = [] then (\<Sum>v\<leftarrow>x. (v - mean) ^ moment) / real (length x)
      else (\<Sum>(w, v)\<leftarrow>zip weights x. w * (v - mean) ^ moment) / sum_list weights)"

text \<open>
  The variable \<^verbatim>\<open>prior\<close> of \<^verbatim>\<open>FitPrior\<close> and the two faults of its initialisation.
\<close>

definition FitPrior_prior :: "nat \<Rightarrow> nat \<Rightarrow> error + bool" where
  "FitPrior_prior lenPriorValue lenPriorWeight =
     (if lenPriorValue = 0 \<or> lenPriorWeight = 0 then
        (if lenPriorValue = 0 \<and> lenPriorWeight = 0 then Inr False
         else if lenPriorValue = 0 \<and> lenPriorWeight \<noteq> 0 then
           Inl (Panic ''normal: prior weight provided but not the value'')
         else Inl (Panic ''normal: prior value provided but not the weight''))
      else Inr True)"

text \<open>
  The part of \<^verbatim>\<open>FitPrior\<close> after its checks. The receiver is updated in place: a
  failure carries the receiver as it stands at that moment. The reads
  \<^verbatim>\<open>priorWeight[0]\<close>, \<^verbatim>\<open>priorValue[0]\<close> come before the assignment of \<^verbatim>\<open>n.Mu\<close>, the reads
  \<^verbatim>\<open>priorWeight[1]\<close>, \<^verbatim>\<open>priorValue[1]\<close> after it.
\<close>

definition FitPrior_fit ::
  "Normal \<Rightarrow> real list \<Rightarrow> real list \<Rightarrow> real list \<Rightarrow> real list \<Rightarrow> bool
     \<Rightarrow> (error \<times> Normal) + (Normal \<times> real list \<times> real list)" where
  "FitPrior_fit n samples weights priorValue priorWeight prior =
     (let sampleMean = stat_Mean samples weights;
          sampleVariance = stat_Moment 2 samples sampleMean weights;
          sumWeights = (if length weights = 0 then real (length samples) else floats_Sum weights)
      in
      if prior \<and> (length priorWeight \<le> 0 \<or> length priorValue \<le> 0) then Inl (IndexOutOfRange, n)
      else
        let totalWeight = (if prior then sumWeights + priorWeight ! 0 else sumWeights);
            totalSum = (if prior then sampleMean * sumWeights + priorValue ! 0 * priorWeight ! 0
                        else sampleMean * sumWeights);
            n = n\<lparr>Mu := totalSum / totalWeight\<rparr>
        in
        if prior \<and> (length priorWeight \<le> 1 \<or> length priorValue \<le> 1) then Inl (IndexOutOfRange, n)
        else
          let totalVariance =
                (if prior then
                   (let totalVariance =
                          sampleVariance * sumWeights + priorWeight ! 1 * priorValue ! 1 * priorValue ! 1;
                        meanDiff = sampleMean - priorValue ! 0
                    in totalVariance + priorWeight ! 0 * sumWeights * meanDiff * meanDiff / totalWeight)
                 else sampleVariance * sumWeights);
              n = n\<lparr>Sigma := sqrt (totalVariance / totalWeight)\<rparr>;
              newPriorValue = [Mu n, Sigma n];
              newPriorWeight =
                (if prior then [sumWeights + priorWeight ! 0, sumWeights + priorWeight ! 1]
                 else [sumWeights, sumWeights])
          in Inr (n, newPriorValue, newPriorWeight))"

text \<open>
  \<^verbatim>\<open>FitPrior\<close>: the receiver \<open>n\<close>, then the four slices. A nil slice and an empty one
  both have length \<open>0\<close> and are the empty list.
\<close>

definition FitPrior ::
  "Normal \<Rightarrow> real list \<Rightarrow> real list \<Rightarrow> real list \<Rightarrow> real list
     \<Rightarrow> (error \<times> Normal) + (Normal \<times> real list \<times> real list)" where
  "FitPrior n samples weights priorValue priorWeight =
     (let lenPriorValue = length priorValue;
          lenPriorWeight = length priorWeight
      in
      if length weights \<noteq> 0 \<and> length samples \<noteq> length weights then
        Inl (Panic ''dist: slice size mismatch'', n)
      else if lenPriorValue \<noteq> lenPriorWeight then
        Inl (Panic ''normal: mismatch in prior lengths'', n)
      else if lenPriorValue > 2 then
        Inl (Panic ''normal: too many prior values'', n)
      else
        case FitPrior_prior lenPriorValue lenPriorWeight of
          Inl e \<Rightarrow> Inl (e, n)
        | Inr prior \<Rightarrow> FitPrior_fit n samples weights priorValue priorWeight prior)"

text \<open>\<^verbatim>\<open>Fit\<close> drops the two slices that \<^verbatim>\<open>FitPrior\<close> returns and keeps the receiver.\<close>

definition Fit :: "Normal \<Rightarrow> real list \<Rightarrow> real list \<Rightarrow> (error \<times> Normal) + Normal" where
  "Fit n samples weights =
     (case FitPrior n samples weights [] [] of
        Inl e \<Rightarrow> Inl e
      | Inr (n', newPriorValue, newPriorWeight) \<Rightarrow> Inr n')"

section \<open>The evaluator computes the quotient of the two polynomials\<close>

lemma rateval_loop_poly:
  "k \<le> length a \<Longrightarrow>
   rateval_loop a (int k) x u = Inr (u * x ^ k + (\<Sum>i<k. a ! i * x ^ i))"
proof (induction k arbitrary: u)
  case 0
  show ?case by (simp add: rateval_loop.simps)
next
  case (Suc k)
  have step: "rateval_loop a (int (Suc k)) x u = rateval_loop a (int k) x (x * u + a ! k)"
    using Suc.prems by (subst rateval_loop.simps) simp
  have "k \<le> length a" using Suc.prems by simp
  then show ?case
    unfolding step by (simp add: Suc.IH algebra_simps)
qed

lemma polyval_last:
  assumes "a \<noteq> []"
  shows "polyval a x = a ! (length a - 1) * x ^ (length a - 1) + (\<Sum>i<length a - 1. a ! i * x ^ i)"
proof -
  obtain n where n: "length a = Suc n"
    using assms by (cases a) auto
  show ?thesis by (simp add: polyval_def n)
qed

lemma rateval_loop_polyval:
  assumes "a \<noteq> []"
  shows "rateval_loop a (int (length a) - 1) x (a ! nat (int (length a) - 1)) = Inr (polyval a x)"
proof -
  have len: "int (length a) - 1 = int (length a - 1)"
    using assms by (cases a) auto
  show ?thesis
    unfolding len by (simp add: rateval_loop_poly polyval_last [OF assms])
qed

lemma foldl_horner:
  "foldl (\<lambda>u c. x * u + c) (u :: real) cs
     = u * x ^ length cs + (\<Sum>i<length cs. rev cs ! i * x ^ i)"
proof (induction cs arbitrary: u)
  case Nil
  show ?case by simp
next
  case (Cons c cs)
  have low: "(\<Sum>i<length cs. (rev cs @ [c]) ! i * x ^ i) = (\<Sum>i<length cs. rev cs ! i * x ^ i)"
    by (rule sum.cong) (simp_all add: nth_append)
  have "foldl (\<lambda>u c. x * u + c) u (c # cs) = foldl (\<lambda>u c. x * u + c) (x * u + c) cs"
    by simp
  also have "\<dots> = (x * u + c) * x ^ length cs + (\<Sum>i<length cs. rev cs ! i * x ^ i)"
    by (rule Cons.IH)
  also have "\<dots> = u * x ^ length (c # cs) + (\<Sum>i<length (c # cs). rev (c # cs) ! i * x ^ i)"
    by (simp add: low nth_append algebra_simps)
  finally show ?case .
qed

lemma horner_rev_polyval:
  assumes "a \<noteq> []"
  shows "horner (rev a) x = polyval a x"
proof -
  obtain as l where a: "a = as @ [l]"
    using assms by (cases a rule: rev_cases) auto
  have "(\<Sum>i<length as. (as @ [l]) ! i * x ^ i) = (\<Sum>i<length as. as ! i * x ^ i)"
    by (rule sum.cong) (simp_all add: nth_append)
  then show ?thesis
    by (simp add: a polyval_def foldl_horner nth_append)
qed

lemma rateval_polyval:
  assumes "a \<noteq> []" and "b \<noteq> []"
  shows "rateval a (int (length a)) b (int (length b)) x = Inr (polyval a x / polyval b x)"
proof -
  have la: "\<not> (int (length a) - 1 < 0 \<or> int (length a) \<le> int (length a) - 1)"
    using assms(1) by (cases a) auto
  have lb: "\<not> (int (length b) - 1 < 0 \<or> int (length b) \<le> int (length b) - 1)"
    using assms(2) by (cases b) auto
  show ?thesis
    unfolding rateval_def
    by (simp only: la lb if_False rateval_loop_polyval [OF assms(1)]
          rateval_loop_polyval [OF assms(2)] sum.case)
qed

text \<open>
  Claim C7. For non-empty coefficient sequences \<open>a\<close> and \<open>b\<close>, passed with their own
  lengths, \<open>rateval\<close> returns (without a panic) the quotient of Horner's scheme run on
  each sequence from the leading coefficient down to the constant one, and Horner's
  scheme yields the polynomials \<open>P\<close> and \<open>Q\<close> whose coefficient of \<open>x ^ i\<close> is element
  \<open>i\<close> of the sequence. The result depends on the arguments only: no state is read or
  written.
\<close>

theorem rateval_is_quotient_of_polynomials:
  assumes "a \<noteq> []" and "b \<noteq> []"
  shows "rateval a (int (length a)) b (int (length b)) x
           = Inr (horner (rev a) x / horner (rev b) x)
         \<and> horner (rev a) x = polyval a x
         \<and> horner (rev b) x = polyval b x"
  using assms by (simp add: rateval_polyval horner_rev_polyval)

theorem rateval_is_quotient_of_polynomials_witness:
  "[1, 2] \<noteq> ([] :: real list) \<and> [4] \<noteq> ([] :: real list)
   \<and> rateval [1, 2] 2 [4] 1 3 = Inr (7 / 4)"
  using rateval_is_quotient_of_polynomials [of "[1, 2]" "[4]" 3]
  by (simp add: polyval_def)

section \<open>The quantile dispatcher\<close>

lemma rateval_8:
  assumes "length a = 8" and "length b = 8"
  shows "rateval a 8 b 8 x = Inr (polyval a x / polyval b x)"
proof -
  have "a \<noteq> []" and "b \<noteq> []" using assms by auto
  from rateval_polyval [OF this, of x] show ?thesis
    by (simp add: assms)
qed

lemma table_lengths:
  "length zQuantSmallA = 8" "length zQuantSmallB = 8"
  "length zQuantInterA = 8" "length zQuantInterB = 8"
  "length zQuantTailA = 8" "length zQuantTailB = 8"
  by (simp_all add: zQuantSmallA_def zQuantSmallB_def zQuantInterA_def zQuantInterB_def
        zQuantTailA_def zQuantTailB_def)

lemma zQuantSmall_value:
  "zQuantSmall q
     = Inr (q * (polyval zQuantSmallA (0.180625 - q * q) / polyval zQuantSmallB (0.180625 - q * q)))"
  by (simp add: zQuantSmall_def rateval_8 table_lengths Let_def)

lemma zQuantIntermediate_value:
  "zQuantIntermediate r = Inr (polyval zQuantInterA (r - 1.6) / polyval zQuantInterB (r - 1.6))"
  by (simp add: zQuantIntermediate_def rateval_8 table_lengths)

lemma zQuantTail_value:
  "zQuantTail r = Inr (polyval zQuantTailA (r - 5.0) / polyval zQuantTailB (r - 5.0))"
  by (simp add: zQuantTail_def rateval_8 table_lengths)

lemma zQuantile_total: "\<exists>z. zQuantile p = Inr z"
  by (simp add: zQuantile_def zQuantSmall_value zQuantIntermediate_value zQuantTail_value Let_def)

text \<open>
  Claim C1. For \<open>0 < p < 1\<close>, with \<open>dp = p - 0.5\<close>: in the central region
  \<open>\<bar>dp\<bar> \<le> 0.425\<close> the evaluator returns some \<open>v\<close> on the central tables at
  \<open>0.180625 - dp\<^sup>2\<close> and \<open>zQuantile p\<close> is \<open>dp * v\<close>; otherwise, with \<open>pp = p\<close> below
  \<open>0.5\<close> and \<open>1 - p\<close> from there on, and \<open>r = sqrt (- ln pp)\<close>, the evaluator returns some
  \<open>x\<close> on the intermediate tables at \<open>r - 1.6\<close> when \<open>r \<le> 5\<close> and on the tail tables at
  \<open>r - 5\<close> when \<open>r > 5\<close>, and \<open>zQuantile p\<close> is \<open>- x\<close> exactly when \<open>p < 0.5\<close> and \<open>x\<close>
  otherwise.
\<close>

theorem zQuantile_three_regions:
  assumes "0 < p" and "p < 1"
  shows "let dp = p - 0.5 in
     if \<bar>dp\<bar> \<le> 0.425 then
       (\<exists>v. rateval zQuantSmallA 8 zQuantSmallB 8 (0.180625 - dp\<^sup>2) = Inr v
            \<and> zQuantile p = Inr (Finite (dp * v)))
     else
       let pp = (if p < 0.5 then p else 1 - p);
           r = sqrt (- ln pp)
       in \<exists>x. (if r \<le> 5.0 then rateval zQuantInterA 8 zQuantInterB 8 (r - 1.6)
                else rateval zQuantTailA 8 zQuantTailB 8 (r - 5.0)) = Inr x
              \<and> zQuantile p = Inr (Finite (if p < 0.5 then - x else x))"
  using assms
  by (simp add: zQuantile_def zQuantSmall_def zQuantIntermediate_def zQuantTail_def
        rateval_8 table_lengths Let_def power2_eq_square)

theorem zQuantile_three_regions_witness:
  "(0 :: real) < 1 / 2 \<and> (1 / 2 :: real) < 1 \<and> zQuantile (1 / 2) = Inr (Finite 0)"
  using zQuantile_three_regions [of "1 / 2"]
  by (simp add: rateval_8 table_lengths)

text \<open>
  The two outer regions at work: \<open>p = exp (- 4)\<close> has \<open>r = 2\<close> and takes the
  intermediate tables at \<open>0.4\<close>; \<open>p = exp (- 36)\<close> has \<open>r = 6\<close> and takes the tail tables
  at \<open>1\<close>. Both lie below \<open>0.5\<close>, so the result is negated.
\<close>

lemma exp_minus_4_small: "exp (- 4 :: real) < 3 / 40"
proof -
  have "(2 :: real) \<le> exp 1"
    using exp_ge_add_one_self [of "1 :: real"] by simp
  then have "(2 :: real) ^ 4 \<le> exp 1 ^ 4"
    by (intro power_mono) simp_all
  moreover have "exp (4 :: real) = exp 1 ^ 4"
    using exp_of_nat_mult [of 4 "1 :: real"] by simp
  ultimately have big: "(16 :: real) \<le> exp 4" by simp
  have "exp (- 4 :: real) = 1 / exp 4"
    by (simp add: exp_minus inverse_eq_divide)
  also have "\<dots> \<le> 1 / 16"
    using big by (intro frac_le) simp_all
  also have "\<dots> < 3 / 40" by simp
  finally show ?thesis .
qed

lemma zQuantile_intermediate_example:
  "zQuantile (exp (- 4))
     = Inr (Finite (- (polyval zQuantInterA (2 / 5) / polyval zQuantInterB (2 / 5))))"
proof -
  have small: "exp (- 4 :: real) < 3 / 40" by (rule exp_minus_4_small)
  have "exp (- 4 :: real) \<noteq> 1" "exp (- 4 :: real) \<noteq> 0" using small by auto
  moreover have "\<not> \<bar>exp (- 4 :: real) - 0.5\<bar> \<le> 0.425" using small by simp
  moreover have "exp (- 4 :: real) < 0.5" using small by simp
  moreover have "sqrt (- ln (exp (- 4 :: real))) = 2"
    using real_sqrt_abs [of 2] by simp
  ultimately show ?thesis
    by (simp add: zQuantile_def zQuantIntermediate_value Let_def)
qed

lemma zQuantile_tail_example:
  "zQuantile (exp (- 36))
     = Inr (Finite (- (polyval zQuantTailA 1 / polyval zQuantTailB 1)))"
proof -
  have "exp (- 36 :: real) \<le> exp (- 4)" by simp
  then have small: "exp (- 36 :: real) < 3 / 40" using exp_minus_4_small by linarith
  have "exp (- 36 :: real) \<noteq> 1" "exp (- 36 :: real) \<noteq> 0" using small by auto
  moreover have "\<not> \<bar>exp (- 36 :: real) - 0.5\<bar> \<le> 0.425" using small by simp
  moreover have "exp (- 36 :: real) < 0.5" using small by simp
  moreover have "sqrt (- ln (exp (- 36 :: real))) = 6"
    using real_sqrt_abs [of 6] by simp
  ultimately show ?thesis
    by (simp add: zQuantile_def zQuantTail_value Let_def)
qed

lemma zQuantile_finite:
  assumes "0 < p" and "p < 1"
  shows "\<exists>z. zQuantile p = Inr (Finite z)"
  using assms
  by (simp add: zQuantile_def zQuantSmall_value zQuantIntermediate_value zQuantTail_value Let_def)

text \<open>
  The central region at work: at \<open>p = 3 / 4\<close> the tables give a standardized quantile
  between \<open>0.67448\<close> and \<open>0.67449\<close>.
\<close>

lemma zQuantile_three_quarters:
  "zQuantile (3 / 4)
     = Inr (Finite (21431406769235788603173737650700729366483
                    / 31774251221764954977492001630702277394760))"
  by (simp add: zQuantile_def zQuantSmall_value polyval_def zQuantSmallA_def zQuantSmallB_def
        lessThan_nat_numeral lessThan_Suc)

lemma zQuantile_three_quarters_bounds:
  "(0.67448 :: real) < 21431406769235788603173737650700729366483
                        / 31774251221764954977492001630702277394760"
  "(21431406769235788603173737650700729366483 :: real)
     / 31774251221764954977492001630702277394760 < 0.67449"
  by simp_all

section \<open>Quantile of a Normal distribution\<close>

text \<open>
  Claim C4, as stated, at mean \<open>3\<close> and scale \<open>- 2\<close>: nothing in \<open>Quantile\<close> looks at the
  sign of the scale, and \<open>3 + (- 2) * (- \<infinity>)\<close> is positive infinity, so \<open>Quantile 0\<close> is
  not negative infinity.
\<close>

theorem Quantile_negative_scale_counterexample:
  "Quantile \<lparr>Mu = 3, Sigma = - 2\<rparr> 0 = Inr PosInf
   \<and> Quantile \<lparr>Mu = 3, Sigma = - 2\<rparr> 0 \<noteq> Inr NegInf"
  by (simp add: Quantile_def zQuantile_def)

text \<open>
  Claim C4, amended. \<open>Quantile\<close> panics with \<^verbatim>\<open>dist: percentile out of bounds\<close> when
  \<open>p < 0\<close> or \<open>p > 1\<close> and returns a value for every \<open>p\<close> in \<open>[0, 1]\<close>. At the boundary it
  returns negative infinity at \<open>0\<close> and positive infinity at \<open>1\<close> when the scale is
  positive; the two are exchanged when the scale is negative, and both are NaN when the
  scale is \<open>0\<close>. For \<open>0 < p < 1\<close> the standardized quantile is a finite \<open>z\<close> and the result
  is the finite number \<open>mean + scale * z\<close>.
\<close>

theorem Quantile_domain:
  "(p < 0 \<or> p > 1 \<longrightarrow> Quantile n p = Inl (Panic ''dist: percentile out of bounds''))
   \<and> (0 \<le> p \<and> p \<le> 1 \<longrightarrow> (\<exists>r. Quantile n p = Inr r))
   \<and> (0 < Sigma n \<longrightarrow> Quantile n 0 = Inr NegInf \<and> Quantile n 1 = Inr PosInf)
   \<and> (Sigma n < 0 \<longrightarrow> Quantile n 0 = Inr PosInf \<and> Quantile n 1 = Inr NegInf)
   \<and> (Sigma n = 0 \<longrightarrow> Quantile n 0 = Inr NaN \<and> Quantile n 1 = Inr NaN)
   \<and> (0 < p \<and> p < 1 \<longrightarrow>
        (\<exists>z. zQuantile p = Inr (Finite z)
             \<and> Quantile n p = Inr (Finite (Mu n + Sigma n * z))))"
proof -
  have ends: "zQuantile 0 = Inr NegInf" "zQuantile 1 = Inr PosInf"
    by (simp_all add: zQuantile_def)
  have out: "p < 0 \<or> p > 1 \<longrightarrow> Quantile n p = Inl (Panic ''dist: percentile out of bounds'')"
    by (simp add: Quantile_def)
  have ret: "0 \<le> p \<and> p \<le> 1 \<longrightarrow> (\<exists>r. Quantile n p = Inr r)"
  proof -
    obtain z where "zQuantile p = Inr z" using zQuantile_total by blast
    then show ?thesis by (simp add: Quantile_def)
  qed
  have pos: "0 < Sigma n \<longrightarrow> Quantile n 0 = Inr NegInf \<and> Quantile n 1 = Inr PosInf"
    by (simp add: Quantile_def ends)
  have neg: "Sigma n < 0 \<longrightarrow> Quantile n 0 = Inr PosInf \<and> Quantile n 1 = Inr NegInf"
    by (simp add: Quantile_def ends)
  have zero: "Sigma n = 0 \<longrightarrow> Quantile n 0 = Inr NaN \<and> Quantile n 1 = Inr NaN"
    by (simp add: Quantile_def ends)
  have inner: "0 < p \<and> p < 1 \<longrightarrow>
        (\<exists>z. zQuantile p = Inr (Finite z)
             \<and> Quantile n p = Inr (Finite (Mu n + Sigma n * z)))"
  proof
    assume p: "0 < p \<and> p < 1"
    then obtain z where z: "zQuantile p = Inr (Finite z)"
      using zQuantile_finite by blast
    have "Quantile n p = Inr (Finite (Mu n + Sigma n * z))"
      using p by (simp add: Quantile_def z)
    with z show "\<exists>z. zQuantile p = Inr (Finite z)
             \<and> Quantile n p = Inr (Finite (Mu n + Sigma n * z))" by blast
  qed
  from out ret pos neg zero inner show ?thesis by blast
qed

theorem Quantile_domain_witness:
  "Quantile \<lparr>Mu = 3, Sigma = 2\<rparr> (- 1) = Inl (Panic ''dist: percentile out of bounds'')
   \<and> Quantile \<lparr>Mu = 3, Sigma = 2\<rparr> 0 = Inr NegInf
   \<and> Quantile \<lparr>Mu = 3, Sigma = 2\<rparr> 1 = Inr PosInf
   \<and> Quantile \<lparr>Mu = 3, Sigma = - 2\<rparr> 1 = Inr NegInf
   \<and> Quantile \<lparr>Mu = 3, Sigma = 0\<rparr> 1 = Inr NaN
   \<and> Quantile \<lparr>Mu = 3, Sigma = 2\<rparr> (3 / 4)
       = Inr (Finite (3 + 2 * (21431406769235788603173737650700729366483
                               / 31774251221764954977492001630702277394760)))"
proof -
  obtain z where z: "zQuantile (3 / 4) = Inr (Finite z)"
    and q: "Quantile \<lparr>Mu = 3, Sigma = 2\<rparr> (3 / 4) = Inr (Finite (3 + 2 * z))"
    using Quantile_domain [of "3 / 4" "\<lparr>Mu = 3, Sigma = 2\<rparr>"] by auto
  have zv: "z = 21431406769235788603173737650700729366483
                / 31774251221764954977492001630702277394760"
    using z unfolding zQuantile_three_quarters by simp
  show ?thesis
    using Quantile_domain [of "- 1" "\<lparr>Mu = 3, Sigma = 2\<rparr>"]
      Quantile_domain [of 1 "\<lparr>Mu = 3, Sigma = - 2\<rparr>"]
      Quantile_domain [of 1 "\<lparr>Mu = 3, Sigma = 0\<rparr>"]
    unfolding q zv by simp
qed

text \<open>
  Claim C8. At \<open>p = 0.5\<close> the central branch runs with \<open>dp = 0\<close>: the standardized
  quantile is \<open>0\<close>, and for every mean and every positive scale \<open>Quantile\<close> returns the
  mean itself.
\<close>

theorem Quantile_half:
  assumes "0 < Sigma n"
  shows "zQuantile 0.5 = Inr (Finite 0) \<and> Quantile n 0.5 = Inr (Finite (Mu n))"
  by (simp add: Quantile_def zQuantile_def zQuantSmall_value)

theorem Quantile_half_witness:
  "0 < Sigma \<lparr>Mu = 3, Sigma = 2\<rparr> \<and> Quantile \<lparr>Mu = 3, Sigma = 2\<rparr> 0.5 = Inr (Finite 3)"
  using Quantile_half [of "\<lparr>Mu = 3, Sigma = 2\<rparr>"]
  by simp

section \<open>Cumulative and survival functions\<close>

text \<open>
  Claim C9. For every \<open>x\<close> and every distribution with positive scale, whatever the error
  function is, \<open>Survival\<close> and \<open>CDF\<close> add up to \<open>1\<close>, and \<open>Survival\<close> is the complementary
  form \<open>0.5 * (1 - erf ((x - mean) / (scale * sqrt 2)))\<close>, which does not go through
  \<open>CDF\<close>.
\<close>

theorem Survival_plus_CDF:
  "0 < Sigma n \<Longrightarrow>
   Survival Erf n x + CDF Erf n x = 1
   \<and> Survival Erf n x = 0.5 * (1 - Erf ((x - Mu n) / (Sigma n * sqrt 2)))"
  by (simp add: Survival_def CDF_def field_simps)

theorem Survival_plus_CDF_witness:
  "0 < Sigma \<lparr>Mu = 0, Sigma = 1\<rparr>
   \<and> Survival tanh \<lparr>Mu = 0, Sigma = 1\<rparr> 3 + CDF tanh \<lparr>Mu = 0, Sigma = 1\<rparr> 3 = 1"
  using Survival_plus_CDF [of "\<lparr>Mu = 0, Sigma = 1\<rparr>" tanh 3]
  by simp

section \<open>Derivatives of the log-density\<close>

text \<open>
  The partial derivatives of \<open>LogProb\<close> for a positive scale: \<open>(x - mean) / scale\<^sup>2\<close> in
  the mean, \<open>- 1 / scale + (x - mean)\<^sup>2 / scale ^ 3\<close> in the scale, and what \<open>DLogProbDX\<close>
  computes in \<open>x\<close>.
\<close>

lemma LogProb_deriv_Mu:
  "0 < s \<Longrightarrow>
   ((\<lambda>m. LogProb \<lparr>Mu = m, Sigma = s\<rparr> x) has_real_derivative (x - m) / s\<^sup>2) (at m)"
  by (auto intro!: derivative_eq_intros simp add: LogProb_def power2_eq_square field_simps)

lemma LogProb_deriv_Sigma:
  "0 < s \<Longrightarrow>
   ((\<lambda>s. LogProb \<lparr>Mu = m, Sigma = s\<rparr> x) has_real_derivative (- 1 / s + (x - m)\<^sup>2 / s ^ 3)) (at s)"
  by (auto intro!: derivative_eq_intros
        simp add: LogProb_def power2_eq_square power3_eq_cube field_simps)

lemma LogProb_deriv_x:
  "0 < Sigma n \<Longrightarrow> ((\<lambda>x. LogProb n x) has_real_derivative DLogProbDX n x) (at x)"
  by (auto intro!: derivative_eq_intros simp add: LogProb_def DLogProbDX_def field_simps)

lemma DLogProbDParam_length:
  "length deriv \<noteq> 2 \<Longrightarrow> DLogProbDParam n x deriv = Inl (Panic ''dist: slice length mismatch'')"
  by (simp add: DLogProbDParam_def NumParameters_def)

lemma DLogProbDParam_value:
  "length deriv = 2 \<Longrightarrow>
   DLogProbDParam n x deriv
     = Inr [Mu n * (x - Mu n) / (Sigma n)\<^sup>2, (- 1 + (x - Mu n)\<^sup>2 / 2) / Sigma n]"
  by (cases deriv; cases "tl deriv")
     (auto simp add: DLogProbDParam_def NumParameters_def power2_eq_square)

text \<open>
  Claim C2. For mean \<open>0\<close>, scale \<open>2\<close> and \<open>x = 1\<close>, \<open>DLogProbDParam\<close> writes \<open>[0, - 1 / 4]\<close>
  into a two-element slice, whereas the partial derivatives of the log-density there,
  \<open>(x - mean) / scale\<^sup>2\<close> and \<open>- 1 / scale + (x - mean)\<^sup>2 / scale ^ 3\<close>, are \<open>1 / 4\<close> and
  \<open>- 3 / 8\<close>.
\<close>

theorem DLogProbDParam_at_failing_input:
  "DLogProbDParam \<lparr>Mu = 0, Sigma = 2\<rparr> 1 [0, 0] = Inr [0, - 1 / 4]
   \<and> [0, - 1 / 4] \<noteq> [(1 - 0) / 2\<^sup>2, - 1 / 2 + (1 - 0)\<^sup>2 / (2 :: real) ^ 3]"
  by (simp add: DLogProbDParam_def NumParameters_def)

section \<open>Fitting\<close>

lemma FitPrior_prior_eq: "FitPrior_prior k k = Inr (k \<noteq> 0)"
  by (simp add: FitPrior_prior_def)

text \<open>
  When \<open>FitPrior\<close> fails: on the three checked size faults, and on a prior of length
  \<open>1\<close>, whose second element is read.
\<close>

lemma FitPrior_fails_iff:
  "isl (FitPrior n samples weights priorValue priorWeight) \<longleftrightarrow>
     (length weights \<noteq> 0 \<and> length samples \<noteq> length weights)
     \<or> length priorValue \<noteq> length priorWeight
     \<or> length priorValue > 2
     \<or> length priorValue = 1"
  by (auto simp add: FitPrior_def FitPrior_prior_def FitPrior_fit_def Let_def le_Suc_eq)

text \<open>
  Claim C3. For samples with no weights or as many weights as samples, and a prior
  value and a prior weight of length \<open>2\<close>, \<open>FitPrior\<close> returns; with \<open>m\<close> and \<open>v\<close> the
  weighted mean and the uncorrected weighted variance of the samples and \<open>sumWeights\<close>
  the weight of the samples, the total variance is \<open>v * sumWeights\<close> plus
  \<open>priorWeight[1] * priorValue[1]\<^sup>2\<close> plus
  \<open>priorWeight[0] * sumWeights * (m - priorValue[0])\<^sup>2 / totalWeight\<close>, the new scale is
  \<open>sqrt (totalVariance / totalWeight)\<close>, and the returned statistics are
  \<open>[newMean, newScale]\<close> and
  \<open>[sumWeights + priorWeight[0], sumWeights + priorWeight[1]]\<close>.
\<close>

theorem FitPrior_with_prior:
  assumes "length weights = 0 \<or> length weights = length samples"
    and "length priorValue = 2" and "length priorWeight = 2"
  shows "FitPrior n samples weights priorValue priorWeight =
     (let m = stat_Mean samples weights;
          v = stat_Moment 2 samples m weights;
          sumWeights = (if weights = [] then real (length samples) else floats_Sum weights);
          totalWeight = sumWeights + priorWeight ! 0;
          totalVariance = v * sumWeights + priorWeight ! 1 * (priorValue ! 1)\<^sup>2
                          + priorWeight ! 0 * sumWeights * (m - priorValue ! 0)\<^sup>2 / totalWeight;
          newMean = (m * sumWeights + priorValue ! 0 * priorWeight ! 0) / totalWeight;
          newScale = sqrt (totalVariance / totalWeight)
      in Inr (\<lparr>Mu = newMean, Sigma = newScale\<rparr>, [newMean, newScale],
              [sumWeights + priorWeight ! 0, sumWeights + priorWeight ! 1]))"
  using assms
  by (auto simp add: FitPrior_def FitPrior_prior_eq FitPrior_fit_def Let_def
        power2_eq_square algebra_simps)

theorem FitPrior_with_prior_witness:
  "FitPrior \<lparr>Mu = 0, Sigma = 1\<rparr> [5] [1] [0, 1] [1, 1]
     = Inr (\<lparr>Mu = 5 / 2, Sigma = sqrt (27 / 4)\<rparr>, [5 / 2, sqrt (27 / 4)], [2, 2])"
  using FitPrior_with_prior [of "[1]" "[5]" "[0, 1]" "[1, 1]" "\<lparr>Mu = 0, Sigma = 1\<rparr>"]
  by (simp add: stat_Mean_def stat_Moment_def floats_Sum_def Let_def)

text \<open>
  Claim C5. Without a prior, for samples with no weights or as many weights as samples
  and a total weight other than \<open>0\<close>, \<open>Fit\<close> sets the mean to the weighted mean of the
  samples and the scale to the square root of their uncorrected weighted second central
  moment; the unweighted samples \<open>[1, 2, 3]\<close> give mean \<open>2\<close> and scale \<open>sqrt (2 / 3)\<close>.
\<close>

theorem Fit_without_prior:
  "((weights = [] \<or> length weights = length samples)
      \<and> (if weights = [] then real (length samples) else floats_Sum weights) \<noteq> 0 \<longrightarrow>
     Fit n samples weights
       = Inr \<lparr>Mu = stat_Mean samples weights,
              Sigma = sqrt (stat_Moment 2 samples (stat_Mean samples weights) weights)\<rparr>)
   \<and> Fit n [1, 2, 3] [] = Inr \<lparr>Mu = 2, Sigma = sqrt (2 / 3)\<rparr>"
  by (auto simp add: Fit_def FitPrior_def FitPrior_prior_def FitPrior_fit_def Let_def
        stat_Mean_def stat_Moment_def floats_Sum_def)

theorem Fit_without_prior_witness:
  "Fit \<lparr>Mu = 0, Sigma = 1\<rparr> [1, 3] [3, 1] = Inr \<lparr>Mu = 3 / 2, Sigma = sqrt (3 / 4)\<rparr>"
  using Fit_without_prior [of "[3, 1]" "[1, 3]" "\<lparr>Mu = 0, Sigma = 1\<rparr>"]
  by (simp add: stat_Mean_def stat_Moment_def floats_Sum_def power2_eq_square)

text \<open>
  Claim C6. One sample without weights and a prior value and a prior weight of length
  \<open>1\<close>: no weight mismatch, equal prior lengths, no more than two prior elements, both
  prior slices supplied. \<open>FitPrior\<close> fails all the same, on the read of
  \<^verbatim>\<open>priorWeight[1]\<close>, and by then the mean of the receiver has been overwritten with
  \<open>1 / 2\<close>.
\<close>

theorem FitPrior_length_one_prior:
  "FitPrior \<lparr>Mu = 0, Sigma = 1\<rparr> [1] [] [0] [1]
     = Inl (IndexOutOfRange, \<lparr>Mu = 1 / 2, Sigma = 1\<rparr>)"
  by (simp add: FitPrior_def FitPrior_prior_def FitPrior_fit_def stat_Mean_def
        stat_Moment_def floats_Sum_def Let_def)

text \<open>
  Claim C10, as stated, at a call with a prior value, no prior weight, two samples and
  one weight: the call stops at the weights check with \<^verbatim>\<open>dist: slice size mismatch\<close>,
  before the comparison of the prior lengths, and so not with
  \<^verbatim>\<open>normal: mismatch in prior lengths\<close>.
\<close>

theorem FitPrior_partial_prior_counterexample:
  "([0 :: real] = []) \<noteq> (([] :: real list) = [])
   \<and> FitPrior \<lparr>Mu = 0, Sigma = 1\<rparr> [1, 2] [1] [0] []
       = Inl (Panic ''dist: slice size mismatch'', \<lparr>Mu = 0, Sigma = 1\<rparr>)
   \<and> FitPrior \<lparr>Mu = 0, Sigma = 1\<rparr> [1, 2] [1] [0] []
       \<noteq> Inl (Panic ''normal: mismatch in prior lengths'', \<lparr>Mu = 0, Sigma = 1\<rparr>)"
  by (simp add: FitPrior_def)

text \<open>
  Claim C10, amended. No call of \<open>FitPrior\<close> ends in either of the two faults for a
  partial prior, whatever the receiver is by then: a call with exactly one of
  \<open>priorValue\<close>, \<open>priorWeight\<close> empty stops earlier with the receiver untouched, at the
  weights check with \<^verbatim>\<open>dist: slice size mismatch\<close> when the weights do not match the
  samples, and otherwise at the comparison of the prior lengths with
  \<^verbatim>\<open>normal: mismatch in prior lengths\<close>.
\<close>

theorem FitPrior_partial_prior_branches_unreachable:
  "FitPrior n samples weights priorValue priorWeight
     \<noteq> Inl (Panic ''normal: prior weight provided but not the value'', n')
   \<and> FitPrior n samples weights priorValue priorWeight
     \<noteq> Inl (Panic ''normal: prior value provided but not the weight'', n')
   \<and> ((priorValue = []) \<noteq> (priorWeight = []) \<longrightarrow>
        FitPrior n samples weights priorValue priorWeight
          = Inl (if length weights \<noteq> 0 \<and> length samples \<noteq> length weights
                 then Panic ''dist: slice size mismatch''
                 else Panic ''normal: mismatch in prior lengths'', n))"
  by (auto simp add: FitPrior_def FitPrior_prior_eq FitPrior_fit_def Let_def)

theorem FitPrior_partial_prior_branches_unreachable_witness:
  "FitPrior \<lparr>Mu = 0, Sigma = 1\<rparr> [1, 2] [] [] [3]
     = Inl (Panic ''normal: mismatch in prior lengths'', \<lparr>Mu = 0, Sigma = 1\<rparr>)"
  using FitPrior_partial_prior_branches_unreachable
          [of "\<lparr>Mu = 0, Sigma = 1\<rparr>" "[1, 2]" "[]" "[]" "[3]"]
  by simp

end
